theory Spec2Isabelle
  imports Complex_Main "HOL-Library.Sublist"
begin

section \<open>Data model of the dashboard page\<close>

text \<open>
  JavaScript strings are modelled as \<^typ>\<open>string\<close>, holding the UTF-8 bytes of the
  source text; a character outside ASCII is written as its bytes. JavaScript numbers
  are only stored, compared and formatted by this page (no arithmetic is done on them),
  and are modelled as \<^typ>\<open>real\<close>. The value \<open>undefined\<close> is \<open>None\<close>.
\<close>

definition mockFeatureNames :: "string list" where
  "mockFeatureNames =
     [''Rainfall (mm)'',
      ''Water Level (m)'',
      ''Temperature ('' @ [CHR 0xC2, CHR 0xB0] @ ''C)'',
      ''Humidity (%)'',
      ''Wind Speed (km/h)'',
      ''River Discharge (m'' @ [CHR 0xC2, CHR 0xB3] @ ''/s)'',
      ''Soil Moisture (%)'',
      ''Elevation (m)'']"

record featureConfig =
  default_v :: real
  min_v :: real
  max_v :: real
  step_v :: real

definition featureDefaultsTable :: "(string \<times> featureConfig) list" where
  "featureDefaultsTable =
     [(''Rainfall (mm)'', \<lparr>default_v = 50, min_v = 0, max_v = 300, step_v = 1\<rparr>),
      (''Water Level (m)'', \<lparr>default_v = 2, min_v = 0, max_v = 10, step_v = 1 / 10\<rparr>),
      (''Temperature ('' @ [CHR 0xC2, CHR 0xB0] @ ''C)'',
         \<lparr>default_v = 25, min_v = - 10, max_v = 50, step_v = 1 / 2\<rparr>),
      (''Humidity (%)'', \<lparr>default_v = 60, min_v = 0, max_v = 100, step_v = 1\<rparr>),
      (''Wind Speed (km/h)'', \<lparr>default_v = 15, min_v = 0, max_v = 150, step_v = 1\<rparr>),
      (''River Discharge (m'' @ [CHR 0xC2, CHR 0xB3] @ ''/s)'',
         \<lparr>default_v = 100, min_v = 0, max_v = 1000, step_v = 5\<rparr>),
      (''Soil Moisture (%)'', \<lparr>default_v = 40, min_v = 0, max_v = 100, step_v = 1\<rparr>),
      (''Elevation (m)'', \<lparr>default_v = 50, min_v = 0, max_v = 500, step_v = 1\<rparr>)]"

definition featureDefaults :: "string \<rightharpoonup> featureConfig" where
  "featureDefaults = map_of featureDefaultsTable"

text \<open>\<open>featureDefaults[name]?.default || 0\<close>: a missing entry and a default of zero
  both give zero.\<close>

definition defaultOf :: "string \<Rightarrow> real" where
  "defaultOf name =
     (case featureDefaults name of
        None \<Rightarrow> 0
      | Some c \<Rightarrow> if default_v c = 0 then 0 else default_v c)"

text \<open>The object \<open>defaults\<close> that the mount effect and \<open>handleReset\<close> build with
  \<open>mockFeatureNames.forEach\<close>, starting from the empty object.\<close>

definition defaults :: "string \<rightharpoonup> real" where
  "defaults = fold (\<lambda>name d. d(name \<mapsto> defaultOf name)) mockFeatureNames Map.empty"

datatype toast =
  SonnerSuccess string
  | UiToast "string option" string string

text \<open>
  The component state of \<open>Dashboard\<close> (the five \<open>useState\<close> cells), together with what
  the handlers leave in the environment: the pending two-second timers of
  \<open>handlePredict\<close>, each holding the \<open>featureValues\<close> object its callback closed over,
  the pending 100 ms timer of the mount effect, and the toasts shown so far.
\<close>

record dashboard =
  isLoaded :: bool
  isSubmitting :: bool
  featureValues :: "string \<rightharpoonup> real"
  predictionResult :: "string option"
  aiInsights :: "string option"
  pending :: "(string \<rightharpoonup> real) list"
  loadTimer :: bool
  toasts :: "toast list"

definition initialState :: dashboard where
  "initialState =
     \<lparr>isLoaded = False, isSubmitting = False, featureValues = Map.empty,
      predictionResult = None, aiInsights = None, pending = [], loadTimer = False,
      toasts = []\<rparr>"

definition mountEffect :: "dashboard \<Rightarrow> dashboard" where
  "mountEffect s = s\<lparr>featureValues := defaults, loadTimer := True\<rparr>"

definition mounted :: dashboard where
  "mounted = mountEffect initialState"

section \<open>Handlers\<close>

text \<open>\<open>value[0]\<close> of an empty array is \<open>undefined\<close>.\<close>

fun first :: "real list \<Rightarrow> real option" where
  "first [] = None"
| "first (x # xs) = Some x"

definition handleSliderChange :: "string \<Rightarrow> real list \<Rightarrow> dashboard \<Rightarrow> dashboard" where
  "handleSliderChange name val s =
     s\<lparr>featureValues := (featureValues s)(name := first val)\<rparr>"

definition handleReset :: "dashboard \<Rightarrow> dashboard" where
  "handleReset s =
     s\<lparr>featureValues := defaults,
       predictionResult := None,
       aiInsights := None,
       toasts := toasts s @ [SonnerSuccess ''All parameters have been reset to default values'']\<rparr>"

text \<open>The synchronous part of \<open>handlePredict\<close>: the flag is set and the timer is
  started; its callback sees the \<open>featureValues\<close> of the render that was clicked.\<close>

definition handlePredict :: "dashboard \<Rightarrow> dashboard" where
  "handlePredict s = s\<lparr>isSubmitting := True, pending := pending s @ [featureValues s]\<rparr>"

subsection \<open>The verdict and the insight text\<close>

definition siren :: string where
  "siren = [CHR 0xF0, CHR 0x9F, CHR 0x9A, CHR 0xA8]"

definition checkMarkButton :: string where
  "checkMarkButton = [CHR 0xE2, CHR 0x9C, CHR 0x85]"

definition magnifier :: string where
  "magnifier = [CHR 0xF0, CHR 0x9F, CHR 0x94, CHR 0x8D]"

definition warningSign :: string where
  "warningSign = [CHR 0xE2, CHR 0x9A, CHR 0xA0, CHR 0xEF, CHR 0xB8, CHR 0x8F]"

definition checkMark :: string where
  "checkMark = [CHR 0xE2, CHR 0x9C, CHR 0x93]"

definition bullet :: string where
  "bullet = [CHR 0xE2, CHR 0x80, CHR 0xA2]"

definition highVerdict :: string where
  "highVerdict = siren @ '' High Flood Risk Level!''"

definition lowVerdict :: string where
  "lowVerdict = checkMarkButton @ '' Low Flood Risk Level.''"

definition result :: "bool \<Rightarrow> string" where
  "result isHighRisk = (if isHighRisk then highVerdict else lowVerdict)"

definition highMarker :: string where
  "highMarker = warningSign @ '' Key risk factors:''"

definition lowMarker :: string where
  "lowMarker = checkMark @ '' Favorable conditions:''"

text \<open>A template literal is a sequence of literal text and substitutions; the only
  substitutions of the two inner templates are reads \<open>${featureValues[name]}\<close>.\<close>

datatype piece = Lit string | Subst string

definition highFactors :: "piece list" where
  "highFactors =
     [Lit (bullet @ '' The rainfall value of ''), Subst ''Rainfall (mm)'',
      Lit (''mm exceeds critical thresholds.\<newline>        '' @ bullet @ '' Water level at ''),
      Subst ''Water Level (m)'',
      Lit (''m is approaching concerning levels.\<newline>        '' @ bullet
           @ '' Current humidity levels (''),
      Subst ''Humidity (%)'',
      Lit ''%) indicate saturated conditions.'']"

definition lowFactors :: "piece list" where
  "lowFactors =
     [Lit (bullet @ '' Rainfall at ''), Subst ''Rainfall (mm)'',
      Lit (''mm is below flood-triggering levels.\<newline>        '' @ bullet
           @ '' Current water level of ''),
      Subst ''Water Level (m)'',
      Lit (''m is within safe parameters.\<newline>        '' @ bullet
           @ '' Temperature and humidity conditions remain favorable.'')]"

definition factors :: "bool \<Rightarrow> piece list" where
  "factors isHighRisk = (if isHighRisk then highFactors else lowFactors)"

text \<open>The names whose values a template reads, in order.\<close>

fun substitutions :: "piece list \<Rightarrow> string list" where
  "substitutions [] = []"
| "substitutions (Lit t # ps) = substitutions ps"
| "substitutions (Subst n # ps) = n # substitutions ps"

text \<open>
  A substitution converts the value to a string: \<open>undefined\<close> gives the text
  \<open>undefined\<close>, a number gives what the runtime's number formatting gives, which is the
  parameter \<open>toStr\<close> of the model.
\<close>

definition interpolate :: "(real \<Rightarrow> string) \<Rightarrow> real option \<Rightarrow> string" where
  "interpolate toStr v = (case v of None \<Rightarrow> ''undefined'' | Some x \<Rightarrow> toStr x)"

fun render :: "(real \<Rightarrow> string) \<Rightarrow> (string \<rightharpoonup> real) \<Rightarrow> piece list \<Rightarrow> string" where
  "render toStr fv [] = []"
| "render toStr fv (Lit t # ps) = t @ render toStr fv ps"
| "render toStr fv (Subst n # ps) = interpolate toStr (fv n) @ render toStr fv ps"

definition highRecommendations :: string where
  "highRecommendations =
     bullet @ '' Monitor precipitation forecasts closely in the next 24-48 hours.\<newline>''
     @ bullet @ '' Consider implementing early warning procedures.\<newline>''
     @ bullet @ '' Evaluate drainage systems in potentially affected areas.''"

definition lowRecommendations :: string where
  "lowRecommendations =
     bullet @ '' Continue regular monitoring of environmental conditions.\<newline>''
     @ bullet @ '' No immediate action required based on current parameters.\<newline>''
     @ bullet @ '' Maintain standard preparedness protocols.''"

definition heading :: string where
  "heading =
     ''\<newline>      '' @ magnifier @ '' Flood Prediction Analysis:\<newline>      \<newline>''
     @ ''      Based on the provided environmental data, our model has identified the following:''
     @ ''\<newline>      \<newline>      ''"

definition insights :: "(real \<Rightarrow> string) \<Rightarrow> bool \<Rightarrow> (string \<rightharpoonup> real) \<Rightarrow> string" where
  "insights toStr isHighRisk fv =
     heading
     @ (if isHighRisk then highMarker else lowMarker)
     @ ''\<newline>      ''
     @ render toStr fv (factors isHighRisk)
     @ ''\<newline>      \<newline>      Recommendations:\<newline>      ''
     @ (if isHighRisk then highRecommendations else lowRecommendations)
     @ ''\<newline>      ''"

text \<open>The text that the template literal gives in each of the two branches, with every
  \<open>${isHighRisk ? ... : ...}\<close> resolved: lines 115 to 119, 121 to 123 and 131 for the
  high-risk text, lines 115 to 119, 124 to 126 and 132 for the low-risk text.\<close>

definition highTemplate :: "(real \<Rightarrow> string) \<Rightarrow> (string \<rightharpoonup> real) \<Rightarrow> string" where
  "highTemplate toStr fv =
     heading @ warningSign @ '' Key risk factors:\<newline>      ''
     @ bullet @ '' The rainfall value of '' @ interpolate toStr (fv ''Rainfall (mm)'')
     @ ''mm exceeds critical thresholds.\<newline>        ''
     @ bullet @ '' Water level at '' @ interpolate toStr (fv ''Water Level (m)'')
     @ ''m is approaching concerning levels.\<newline>        ''
     @ bullet @ '' Current humidity levels ('' @ interpolate toStr (fv ''Humidity (%)'')
     @ ''%) indicate saturated conditions.''
     @ ''\<newline>      \<newline>      Recommendations:\<newline>      ''
     @ bullet @ '' Monitor precipitation forecasts closely in the next 24-48 hours.\<newline>''
     @ bullet @ '' Consider implementing early warning procedures.\<newline>''
     @ bullet @ '' Evaluate drainage systems in potentially affected areas.''
     @ ''\<newline>      ''"

definition lowTemplate :: "(real \<Rightarrow> string) \<Rightarrow> (string \<rightharpoonup> real) \<Rightarrow> string" where
  "lowTemplate toStr fv =
     heading @ checkMark @ '' Favorable conditions:\<newline>      ''
     @ bullet @ '' Rainfall at '' @ interpolate toStr (fv ''Rainfall (mm)'')
     @ ''mm is below flood-triggering levels.\<newline>        ''
     @ bullet @ '' Current water level of '' @ interpolate toStr (fv ''Water Level (m)'')
     @ ''m is within safe parameters.\<newline>        ''
     @ bullet @ '' Temperature and humidity conditions remain favorable.''
     @ ''\<newline>      \<newline>      Recommendations:\<newline>      ''
     @ bullet @ '' Continue regular monitoring of environmental conditions.\<newline>''
     @ bullet @ '' No immediate action required based on current parameters.\<newline>''
     @ bullet @ '' Maintain standard preparedness protocols.''
     @ ''\<newline>      ''"

definition riskToast :: "bool \<Rightarrow> toast" where
  "riskToast isHighRisk =
     (if isHighRisk
      then UiToast (Some ''destructive'') ''High Flood Risk Detected''
             ''Review the AI insights for detailed analysis and recommendations.''
      else UiToast None ''Low Flood Risk Detected''
             ''Current conditions show minimal flood risk. See AI insights for details.'')"

text \<open>
  The callback of the timer that \<open>handlePredict\<close> starts. \<open>r\<close> is the value that
  \<open>Math.random()\<close> returns in it and \<open>fv\<close> the \<open>featureValues\<close> object it closed over.
\<close>

definition predictTimeout ::
  "(real \<Rightarrow> string) \<Rightarrow> real \<Rightarrow> (string \<rightharpoonup> real) \<Rightarrow> dashboard \<Rightarrow> dashboard" where
  "predictTimeout toStr r fv s =
     (let isHighRisk = (r > 1 / 2) in
      s\<lparr>predictionResult := Some (result isHighRisk),
        aiInsights := Some (insights toStr isHighRisk fv),
        isSubmitting := False,
        toasts := toasts s @ [riskToast isHighRisk]\<rparr>)"

section \<open>What is rendered\<close>

text \<open>\<open>String.prototype.includes\<close>.\<close>

definition includesStr :: "string \<Rightarrow> string \<Rightarrow> bool" where
  "includesStr s needle = sublist needle s"

text \<open>The props of a feature's slider: \<open>featureDefaults[name] || {min: 0, max: 100, step: 1}\<close>
  and \<open>featureValues[name] || 0\<close>.\<close>

definition sliderMin :: "string \<Rightarrow> real" where
  "sliderMin name = (case featureDefaults name of None \<Rightarrow> 0 | Some c \<Rightarrow> min_v c)"

definition sliderMax :: "string \<Rightarrow> real" where
  "sliderMax name = (case featureDefaults name of None \<Rightarrow> 100 | Some c \<Rightarrow> max_v c)"

definition sliderStep :: "string \<Rightarrow> real" where
  "sliderStep name = (case featureDefaults name of None \<Rightarrow> 1 | Some c \<Rightarrow> step_v c)"

definition sliderValue :: "dashboard \<Rightarrow> string \<Rightarrow> real" where
  "sliderValue s name =
     (case featureValues s name of None \<Rightarrow> 0 | Some v \<Rightarrow> if v = 0 then 0 else v)"

definition predictDisabled :: "dashboard \<Rightarrow> bool" where
  "predictDisabled s = isSubmitting s"

definition resetDisabled :: "dashboard \<Rightarrow> bool" where
  "resetDisabled s = isSubmitting s"

datatype renderError = ReferenceError string

datatype resultsView = NoPredictionResultsYet

text \<open>
  The results tab. With a \<open>predictionResult\<close> that is not truthy (\<open>null\<close> or the empty
  string) it is the placeholder. With a truthy one the source builds the two cards, and
  the second card contains \<open><BrainIcon .../>\<close> (line 272): \<open>BrainIcon\<close> is not among the
  imports of the file (lines 2 to 12), so building the cards throws a
  \<open>ReferenceError\<close> and no view is returned.
\<close>

definition resultsTab :: "dashboard \<Rightarrow> renderError + resultsView" where
  "resultsTab s =
     (case predictionResult s of
        None \<Rightarrow> Inr NoPredictionResultsYet
      | Some p \<Rightarrow>
          if p = [] then Inr NoPredictionResultsYet
          else Inl (ReferenceError ''BrainIcon''))"

text \<open>
  A render of \<open>Dashboard\<close> builds the JSX of both tabs, whichever tab is shown, so it
  throws exactly when the results tab does. The source has no error boundary: React
  then unmounts the page.
\<close>

definition renderThrows :: "dashboard \<Rightarrow> bool" where
  "renderThrows s = (case resultsTab s of Inl e \<Rightarrow> True | Inr v \<Rightarrow> False)"

section \<open>The page as a transition system\<close>

text \<open>
  One event is one user action or one timer firing. The state updates of one handler
  are applied together, and React re-renders between two events, so the handlers of an
  event see the state the previous event left. A button that is rendered disabled
  delivers no click, and a slider exists for each name of \<open>mockFeatureNames\<close> only.
  Timers of equal delay fire in the order they were started.

  \<open>deliver\<close> is what an event does to a page that is on screen. \<open>step\<close> adds that a
  page whose render has thrown is unmounted: it has no slider and no button, the cleanup
  of the mount effect clears the 100 ms timer, and a timer of \<open>handlePredict\<close> that still
  fires cannot change the state of the unmounted component. Such a state takes no step.
\<close>

datatype event =
  SliderChange string "real list"
  | ClickPredict
  | ClickReset
  | PredictTimeout real
  | LoadTimeout

fun deliver :: "(real \<Rightarrow> string) \<Rightarrow> dashboard \<Rightarrow> event \<Rightarrow> dashboard option" where
  "deliver toStr s (SliderChange name val) =
     (if name \<in> set mockFeatureNames then Some (handleSliderChange name val s) else None)"
| "deliver toStr s ClickPredict =
     (if predictDisabled s then None else Some (handlePredict s))"
| "deliver toStr s ClickReset =
     (if resetDisabled s then None else Some (handleReset s))"
| "deliver toStr s (PredictTimeout r) =
     (case pending s of
        [] \<Rightarrow> None
      | fv # rest \<Rightarrow> Some (predictTimeout toStr r fv (s\<lparr>pending := rest\<rparr>)))"
| "deliver toStr s LoadTimeout =
     (if loadTimer s then Some (s\<lparr>isLoaded := True, loadTimer := False\<rparr>) else None)"

definition step :: "(real \<Rightarrow> string) \<Rightarrow> dashboard \<Rightarrow> event \<Rightarrow> dashboard option" where
  "step toStr s e = (if renderThrows s then None else deliver toStr s e)"

fun run :: "(real \<Rightarrow> string) \<Rightarrow> dashboard \<Rightarrow> event list \<Rightarrow> dashboard option" where
  "run toStr s [] = Some s"
| "run toStr s (e # es) =
     (case step toStr s e of None \<Rightarrow> None | Some s' \<Rightarrow> run toStr s' es)"

text \<open>A slider event that delivers a value inside the configured range of its feature.\<close>

definition inRange :: "string \<Rightarrow> real \<Rightarrow> bool" where
  "inRange name x =
     (case featureDefaults name of None \<Rightarrow> False | Some c \<Rightarrow> min_v c \<le> x \<and> x \<le> max_v c)"

fun firesPrediction :: "event \<Rightarrow> bool" where
  "firesPrediction (PredictTimeout r) = True"
| "firesPrediction e = False"

fun deliversInRange :: "event \<Rightarrow> bool" where
  "deliversInRange (SliderChange name val) =
     (case first val of None \<Rightarrow> False | Some x \<Rightarrow> inRange name x)"
| "deliversInRange e = True"

text \<open>Every feature name holds a number inside its configured range.\<close>

definition storedInRange :: "(string \<rightharpoonup> real) \<Rightarrow> bool" where
  "storedInRange fv =
     list_all (\<lambda>n. case fv n of None \<Rightarrow> False | Some v \<Rightarrow> inRange n v) mockFeatureNames"

text \<open>Text made of ASCII characters only, as the runtime's number formatting gives.\<close>

definition ascii :: "string \<Rightarrow> bool" where
  "ascii s = list_all (\<lambda>c. of_char c < (128::nat)) s"

section \<open>The not-found page\<close>

datatype consoleEntry = ConsoleError "string list"

text \<open>An instance of \<open>NotFound\<close>: the diagnostic console it writes to and the dependency
  array \<open>[location.pathname]\<close> of its effect at the last commit (\<open>None\<close> before the
  mount).\<close>

record notFound =
  console :: "consoleEntry list"
  effectDeps :: "string option"

record notFoundView =
  headingText :: string
  messageText :: string
  linkTo :: string
  linkText :: string

definition view404 :: notFoundView where
  "view404 =
     \<lparr>headingText = ''404'',
      messageText = ''The page you'' @ [CHR 0x27] @ ''re looking for doesn'' @ [CHR 0x27]
                    @ ''t exist.'',
      linkTo = ''/'',
      linkText = ''Return Home''\<rparr>"

definition logAttempt :: "string \<Rightarrow> notFound \<Rightarrow> notFound" where
  "logAttempt pathname w =
     w\<lparr>console := console w
          @ [ConsoleError [''404 Error: User attempted to access non-existent route:'',
                           pathname]]\<rparr>"

text \<open>One render and commit of \<open>NotFound\<close> at \<open>location.pathname = pathname\<close>: the view,
  and the effect, which runs when the dependency array differs from the last one.\<close>

definition NotFound :: "string \<Rightarrow> notFound \<Rightarrow> notFoundView \<times> notFound" where
  "NotFound pathname w =
     (view404,
      if effectDeps w = Some pathname then w
      else (logAttempt pathname w)\<lparr>effectDeps := Some pathname\<rparr>)"

section \<open>Sample inputs\<close>

text \<open>A number formatting that agrees with \<open>Number.prototype.toString\<close> on the
  values of the sample runs.\<close>

definition sampleToString :: "real \<Rightarrow> string" where
  "sampleToString x =
     (if x = 120 then ''120'' else if x = 2 then ''2'' else if x = 60 then ''60''
      else if x = 50 then ''50'' else ''0'')"

text \<open>A run of the page and the state its last event leaves: the verdict is stored, and
  the next render throws.\<close>

definition sampleEvents :: "event list" where
  "sampleEvents =
     [LoadTimeout, SliderChange ''Rainfall (mm)'' [120], ClickPredict,
      SliderChange ''Humidity (%)'' [75], PredictTimeout (7 / 10)]"

definition sampleState :: dashboard where
  "sampleState =
     \<lparr>isLoaded = True, isSubmitting = False,
      featureValues = defaults(''Rainfall (mm)'' \<mapsto> 120, ''Humidity (%)'' \<mapsto> 75),
      predictionResult = Some highVerdict,
      aiInsights = Some (insights sampleToString True (defaults(''Rainfall (mm)'' \<mapsto> 120))),
      pending = [], loadTimer = False,
      toasts = [riskToast True]\<rparr>"

section \<open>Basic facts\<close>

lemma renderThrows_iff:
  "renderThrows s \<longleftrightarrow> (\<exists>p. predictionResult s = Some p \<and> p \<noteq> [])"
  by (simp add: renderThrows_def resultsTab_def split: option.splits)

lemma step_Some:
  "step toStr a e = Some b \<longleftrightarrow> \<not> renderThrows a \<and> deliver toStr a e = Some b"
  by (simp add: step_def)

lemma run_invariant:
  assumes "run toStr s es = Some t" and "P s"
    and "\<And>a e b. P a \<Longrightarrow> \<not> renderThrows a \<Longrightarrow> deliver toStr a e = Some b \<Longrightarrow> P b"
  shows "P t"
  using assms(1,2)
proof (induction es arbitrary: s)
  case Nil
  then show ?case by simp
next
  case (Cons e es)
  then obtain b where b: "step toStr s e = Some b" and r: "run toStr b es = Some t"
    by (auto split: option.splits)
  from b have "\<not> renderThrows s" and "deliver toStr s e = Some b"
    by (simp_all add: step_Some)
  from assms(3) [OF Cons.prems(2) this] have "P b" .
  with Cons.IH r show ?case by blast
qed

lemma defaults_apply:
  "defaults n = (if n \<in> set mockFeatureNames then Some (defaultOf n) else None)"
  by (simp add: defaults_def mockFeatureNames_def)

lemma mounted_simps:
  "isSubmitting mounted = False" "pending mounted = []" "predictionResult mounted = None"
  "aiInsights mounted = None" "featureValues mounted = defaults" "loadTimer mounted = True"
  by (simp_all add: mounted_def mountEffect_def initialState_def)

lemma handleSliderChange_simps:
  "isSubmitting (handleSliderChange n v s) = isSubmitting s"
  "pending (handleSliderChange n v s) = pending s"
  "predictionResult (handleSliderChange n v s) = predictionResult s"
  "aiInsights (handleSliderChange n v s) = aiInsights s"
  "featureValues (handleSliderChange n v s) = (featureValues s)(n := first v)"
  by (simp_all add: handleSliderChange_def)

lemma handlePredict_simps:
  "isSubmitting (handlePredict s) = True"
  "pending (handlePredict s) = pending s @ [featureValues s]"
  "predictionResult (handlePredict s) = predictionResult s"
  "aiInsights (handlePredict s) = aiInsights s"
  "featureValues (handlePredict s) = featureValues s"
  by (simp_all add: handlePredict_def)

lemma handleReset_simps:
  "predictionResult (handleReset s) = None" "aiInsights (handleReset s) = None"
  "pending (handleReset s) = pending s" "isSubmitting (handleReset s) = isSubmitting s"
  "featureValues (handleReset s) = defaults"
  by (simp_all add: handleReset_def)

lemma renderThrows_handlers:
  "renderThrows (handleSliderChange n v s) = renderThrows s"
  "renderThrows (handlePredict s) = renderThrows s"
  "\<not> renderThrows (handleReset s)"
  "\<not> renderThrows mounted"
  by (simp_all add: renderThrows_iff handleSliderChange_simps handlePredict_simps
      handleReset_simps mounted_simps)

lemma verdicts_differ: "highVerdict \<noteq> lowVerdict"
  by (simp add: highVerdict_def lowVerdict_def siren_def checkMarkButton_def)

lemma verdicts_truthy: "highVerdict \<noteq> []" "lowVerdict \<noteq> []"
  by (simp_all add: highVerdict_def lowVerdict_def siren_def checkMarkButton_def)

lemma run_sample: "run sampleToString mounted sampleEvents = Some sampleState"
  by (simp add: sampleEvents_def sampleState_def step_def renderThrows_iff
     handleSliderChange_simps handlePredict_simps mounted_simps
     mounted_def mountEffect_def initialState_def
     mockFeatureNames_def predictDisabled_def handlePredict_def handleSliderChange_def
     predictTimeout_def result_def fun_upd_twist)

lemma predictTimeout_result:
  "predictionResult (predictTimeout toStr r fv s) = Some (result (r > 1 / 2))"
  by (simp add: predictTimeout_def Let_def)

lemma deliver_timeout_result:
  "deliver toStr s (PredictTimeout r) = Some t \<Longrightarrow> predictionResult t = Some (result (r > 1 / 2))"
  by (auto simp: predictTimeout_result split: list.splits)

lemma step_timeout_result:
  "step toStr s (PredictTimeout r) = Some t \<Longrightarrow> predictionResult t = Some (result (r > 1 / 2))"
  using deliver_timeout_result [of toStr s r t] by (simp only: step_Some)

lemma run_click_timeout_result:
  assumes "run toStr s [ClickPredict, PredictTimeout r] = Some t"
  shows "predictionResult t = Some (result (r > 1 / 2))"
proof -
  from assms obtain b where "step toStr b (PredictTimeout r) = Some t"
    by (auto split: option.splits)
  then show ?thesis by (rule step_timeout_result)
qed

lemma run_click_timeout:
  assumes "\<not> renderThrows s" and "\<not> predictDisabled s"
  shows "run toStr s [ClickPredict, PredictTimeout r]
    = deliver toStr (handlePredict s) (PredictTimeout r)"
  using assms by (simp add: step_def renderThrows_handlers split: option.splits)

text \<open>
  Claim C1. The verdict that the predict operation stores depends on the pseudo-random
  draw only: the timer callback stores the same verdict whatever feature values it closed
  over and whatever state it runs in, and two runs of a click on the predict button
  followed by the timer firing with the same draw, from any two states, end with the
  same \<open>predictionResult\<close>.
\<close>

theorem verdict_depends_only_on_draw:
  "predictionResult (predictTimeout toStr r fv s) = predictionResult (predictTimeout toStr' r fv' s')
   \<and> (run toStr s [ClickPredict, PredictTimeout r] = Some t
        \<and> run toStr' s' [ClickPredict, PredictTimeout r] = Some t'
        \<longrightarrow> predictionResult t = predictionResult t')"
  by (simp only: predictTimeout_result) (metis run_click_timeout_result)

theorem verdict_depends_only_on_draw_witness:
  "run sampleToString mounted [ClickPredict, PredictTimeout (7 / 10)] \<noteq> None
   \<and> run (\<lambda>x. ''0'') (handleSliderChange ''Rainfall (mm)'' [120] mounted)
         [ClickPredict, PredictTimeout (7 / 10)] \<noteq> None
   \<and> featureValues mounted \<noteq> featureValues (handleSliderChange ''Rainfall (mm)'' [120] mounted)
   \<and> predictionResult (the (run sampleToString mounted [ClickPredict, PredictTimeout (7 / 10)]))
     = predictionResult (the (run (\<lambda>x. ''0'') (handleSliderChange ''Rainfall (mm)'' [120] mounted)
         [ClickPredict, PredictTimeout (7 / 10)]))"
proof -
  let ?s = "handleSliderChange ''Rainfall (mm)'' [120] mounted"
  have m: "\<not> renderThrows mounted" "\<not> predictDisabled mounted"
    by (simp_all add: renderThrows_handlers predictDisabled_def mounted_simps)
  have a: "run sampleToString mounted [ClickPredict, PredictTimeout (7 / 10)] \<noteq> None"
    by (simp only: run_click_timeout [OF m]) (simp add: handlePredict_simps mounted_simps)
  have n: "\<not> renderThrows ?s" "\<not> predictDisabled ?s"
    by (simp_all add: renderThrows_handlers predictDisabled_def mounted_simps
        handleSliderChange_simps)
  have b: "run (\<lambda>x. ''0'') ?s [ClickPredict, PredictTimeout (7 / 10)] \<noteq> None"
    by (simp only: run_click_timeout [OF n])
      (simp add: handlePredict_simps handleSliderChange_simps mounted_simps)
  have "featureValues mounted ''Rainfall (mm)'' \<noteq> featureValues ?s ''Rainfall (mm)''"
    by (simp add: mounted_simps handleSliderChange_simps defaults_apply
        mockFeatureNames_def defaultOf_def featureDefaults_def featureDefaultsTable_def)
  then have c: "featureValues mounted \<noteq> featureValues ?s"
    by metis
  from a b c verdict_depends_only_on_draw
    [of sampleToString "7 / 10" Map.empty mounted "\<lambda>x. ''0''" Map.empty ?s
        "the (run sampleToString mounted [ClickPredict, PredictTimeout (7 / 10)])"
        "the (run (\<lambda>x. ''0'') ?s [ClickPredict, PredictTimeout (7 / 10)])"]
  show ?thesis by (metis option.collapse)
qed

section \<open>Predictions in flight and the stored verdict\<close>

lemma deliver_in_flight:
  assumes "deliver toStr a e = Some b" and "\<not> renderThrows a"
    and "length (pending a) \<le> 1 \<and> (isSubmitting a \<longleftrightarrow> pending a \<noteq> [])
         \<and> predictionResult a \<in> {None, Some highVerdict, Some lowVerdict}"
  shows "length (pending b) \<le> 1 \<and> (isSubmitting b \<longleftrightarrow> pending b \<noteq> [])
         \<and> predictionResult b \<in> {None, Some highVerdict, Some lowVerdict}"
proof (cases e)
  case (SliderChange n v)
  with assms show ?thesis by (auto simp: handleSliderChange_def split: if_splits)
next
  case ClickPredict
  with assms show ?thesis by (auto simp: handlePredict_def predictDisabled_def split: if_splits)
next
  case ClickReset
  with assms show ?thesis by (auto simp: handleReset_def resetDisabled_def split: if_splits)
next
  case (PredictTimeout r)
  with assms(1) have "predictionResult b = Some (result (r > 1 / 2))"
    by (simp only: deliver_timeout_result)
  then have v: "predictionResult b \<in> {None, Some highVerdict, Some lowVerdict}"
    by (simp add: result_def)
  from PredictTimeout assms(1,3)
  have "length (pending b) \<le> 1 \<and> (isSubmitting b \<longleftrightarrow> pending b \<noteq> [])"
    by (cases "pending a") (auto simp: predictTimeout_def Let_def)
  with v show ?thesis by simp
next
  case LoadTimeout
  with assms show ?thesis by (auto split: if_splits)
qed

lemma reachable_in_flight:
  assumes "run toStr mounted es = Some s"
  shows "length (pending s) \<le> 1 \<and> (isSubmitting s \<longleftrightarrow> pending s \<noteq> [])
         \<and> predictionResult s \<in> {None, Some highVerdict, Some lowVerdict}"
  using assms
proof (rule run_invariant)
  show "length (pending mounted) \<le> 1 \<and> (isSubmitting mounted \<longleftrightarrow> pending mounted \<noteq> [])
         \<and> predictionResult mounted \<in> {None, Some highVerdict, Some lowVerdict}"
    by (simp add: mounted_simps)
next
  fix a e b
  assume "length (pending a) \<le> 1 \<and> (isSubmitting a \<longleftrightarrow> pending a \<noteq> [])
         \<and> predictionResult a \<in> {None, Some highVerdict, Some lowVerdict}"
    and "\<not> renderThrows a" and "deliver toStr a e = Some b"
  then show "length (pending b) \<le> 1 \<and> (isSubmitting b \<longleftrightarrow> pending b \<noteq> [])
         \<and> predictionResult b \<in> {None, Some highVerdict, Some lowVerdict}"
    using deliver_in_flight by blast
qed

text \<open>A page that waits for its timer has stored no verdict yet, so it is on screen.\<close>

lemma deliver_submitting:
  assumes "deliver toStr a e = Some b" and "\<not> renderThrows a"
    and "predictionResult a \<in> {None, Some highVerdict, Some lowVerdict}"
    and "isSubmitting a \<longrightarrow> predictionResult a = None"
  shows "isSubmitting b \<longrightarrow> predictionResult b = None"
proof -
  from assms(2,3) have none: "predictionResult a = None"
    using verdicts_truthy by (auto simp: renderThrows_iff)
  show ?thesis
  proof (cases e)
    case (SliderChange n v)
    with assms(1) none show ?thesis
      by (auto simp: handleSliderChange_simps split: if_splits)
  next
    case ClickPredict
    with assms(1) none show ?thesis by (auto simp: handlePredict_simps split: if_splits)
  next
    case ClickReset
    with assms(1) show ?thesis by (auto simp: handleReset_simps split: if_splits)
  next
    case (PredictTimeout r)
    with assms(1) show ?thesis
      by (cases "pending a") (auto simp: predictTimeout_def Let_def)
  next
    case LoadTimeout
    with assms(1) none show ?thesis by (auto split: if_splits)
  qed
qed

lemma reachable_submitting:
  assumes "run toStr mounted es = Some s"
  shows "isSubmitting s \<longrightarrow> \<not> renderThrows s"
proof -
  have "predictionResult s \<in> {None, Some highVerdict, Some lowVerdict}
      \<and> (isSubmitting s \<longrightarrow> predictionResult s = None)"
    using assms
  proof (rule run_invariant)
    show "predictionResult mounted \<in> {None, Some highVerdict, Some lowVerdict}
      \<and> (isSubmitting mounted \<longrightarrow> predictionResult mounted = None)"
      by (simp add: mounted_simps)
  next
    fix a e b
    assume a: "predictionResult a \<in> {None, Some highVerdict, Some lowVerdict}
        \<and> (isSubmitting a \<longrightarrow> predictionResult a = None)"
      and n: "\<not> renderThrows a" and d: "deliver toStr a e = Some b"
    from n a verdicts_truthy have none: "predictionResult a = None"
      by (auto simp: renderThrows_iff)
    have "predictionResult b \<in> {None, Some highVerdict, Some lowVerdict}"
    proof (cases e)
      case (PredictTimeout r)
      with d have "predictionResult b = Some (result (r > 1 / 2))"
        by (simp only: deliver_timeout_result)
      then show ?thesis by (simp add: result_def)
    next
      case (SliderChange n v)
      with d none show ?thesis by (auto simp: handleSliderChange_simps split: if_splits)
    next
      case ClickPredict
      with d none show ?thesis by (auto simp: handlePredict_simps split: if_splits)
    next
      case ClickReset
      with d show ?thesis by (auto simp: handleReset_simps split: if_splits)
    next
      case LoadTimeout
      with d none show ?thesis by (auto split: if_splits)
    qed
    moreover from deliver_submitting [OF d n] a
    have "isSubmitting b \<longrightarrow> predictionResult b = None"
      by blast
    ultimately show "predictionResult b \<in> {None, Some highVerdict, Some lowVerdict}
        \<and> (isSubmitting b \<longrightarrow> predictionResult b = None)"
      by blast
  qed
  then show ?thesis by (auto simp: renderThrows_iff)
qed

text \<open>
  Claim C2. In every state the page can reach, the stored verdict is \<open>null\<close> or one of
  the two fixed strings, which differ. Whenever the page is on screen with the predict
  button enabled, a click followed by the timer firing stores one of the two strings, for
  every draw; and whenever a prediction is pending, the timer can fire and stores one of
  the two.
\<close>

theorem verdict_is_one_of_two:
  assumes "run toStr mounted es = Some s"
  shows "highVerdict \<noteq> lowVerdict
    \<and> predictionResult s \<in> {None, Some highVerdict, Some lowVerdict}
    \<and> (\<not> renderThrows s \<and> \<not> predictDisabled s \<longrightarrow>
         (\<exists>t. run toStr s [ClickPredict, PredictTimeout r] = Some t
              \<and> predictionResult t \<in> {Some highVerdict, Some lowVerdict}))
    \<and> (predictDisabled s \<longrightarrow>
         (\<exists>t. step toStr s (PredictTimeout r) = Some t
              \<and> predictionResult t \<in> {Some highVerdict, Some lowVerdict}))"
proof -
  note inv = reachable_in_flight [OF assms]
  have two: "predictionResult t \<in> {Some highVerdict, Some lowVerdict}"
    if "deliver toStr a (PredictTimeout r) = Some t" for a t
    using deliver_timeout_result [OF that] by (simp add: result_def)
  have click: "\<exists>t. run toStr s [ClickPredict, PredictTimeout r] = Some t
              \<and> predictionResult t \<in> {Some highVerdict, Some lowVerdict}"
    if "\<not> renderThrows s" and "\<not> predictDisabled s"
  proof -
    have "pending (handlePredict s) \<noteq> []"
      by (simp add: handlePredict_def)
    then obtain t where t: "deliver toStr (handlePredict s) (PredictTimeout r) = Some t"
      by (cases "pending (handlePredict s)") auto
    with run_click_timeout [OF that, of toStr r]
    have "run toStr s [ClickPredict, PredictTimeout r] = Some t"
      by (simp only:)
    with two [OF t] show ?thesis by blast
  qed
  have fire: "\<exists>t. step toStr s (PredictTimeout r) = Some t
              \<and> predictionResult t \<in> {Some highVerdict, Some lowVerdict}"
    if "predictDisabled s"
  proof -
    from that inv have "pending s \<noteq> []"
      by (simp add: predictDisabled_def)
    then obtain t where t: "deliver toStr s (PredictTimeout r) = Some t"
      by (cases "pending s") auto
    from that reachable_submitting [OF assms] have "\<not> renderThrows s"
      by (simp add: predictDisabled_def)
    with t have "step toStr s (PredictTimeout r) = Some t"
      by (simp add: step_Some)
    with two [OF t] show ?thesis by blast
  qed
  from inv click fire verdicts_differ show ?thesis by blast
qed

theorem verdict_is_one_of_two_witness:
  "run sampleToString mounted [SliderChange ''Rainfall (mm)'' [120]]
     = Some (handleSliderChange ''Rainfall (mm)'' [120] mounted)
   \<and> \<not> renderThrows (handleSliderChange ''Rainfall (mm)'' [120] mounted)
   \<and> \<not> predictDisabled (handleSliderChange ''Rainfall (mm)'' [120] mounted)
   \<and> (\<exists>t. run sampleToString (handleSliderChange ''Rainfall (mm)'' [120] mounted)
             [ClickPredict, PredictTimeout (3 / 10)] = Some t
         \<and> predictionResult t \<in> {Some highVerdict, Some lowVerdict})
   \<and> run sampleToString mounted [ClickPredict] = Some (handlePredict mounted)
   \<and> predictDisabled (handlePredict mounted)
   \<and> (\<exists>t. step sampleToString (handlePredict mounted) (PredictTimeout (3 / 10)) = Some t
         \<and> predictionResult t \<in> {Some highVerdict, Some lowVerdict})"
proof -
  let ?s = "handleSliderChange ''Rainfall (mm)'' [120] mounted"
  have r: "run sampleToString mounted [SliderChange ''Rainfall (mm)'' [120]] = Some ?s"
    by (simp add: step_def renderThrows_handlers mockFeatureNames_def)
  have d: "\<not> renderThrows ?s" "\<not> predictDisabled ?s"
    by (simp_all add: renderThrows_handlers predictDisabled_def handleSliderChange_simps
        mounted_simps)
  have r': "run sampleToString mounted [ClickPredict] = Some (handlePredict mounted)"
    by (simp add: step_def renderThrows_handlers predictDisabled_def mounted_simps)
  have d': "predictDisabled (handlePredict mounted)"
    by (simp add: predictDisabled_def handlePredict_simps)
  from verdict_is_one_of_two [OF r, of "3 / 10"] d
  have a: "\<exists>t. run sampleToString ?s [ClickPredict, PredictTimeout (3 / 10)] = Some t
         \<and> predictionResult t \<in> {Some highVerdict, Some lowVerdict}"
    by blast
  from verdict_is_one_of_two [OF r', of "3 / 10"] d'
  have b: "\<exists>t. step sampleToString (handlePredict mounted) (PredictTimeout (3 / 10)) = Some t
         \<and> predictionResult t \<in> {Some highVerdict, Some lowVerdict}"
    by blast
  from r d a r' d' b show ?thesis by (intro conjI)
qed

text \<open>
  Claim C10. In every reachable state at most one prediction timer is pending, and
  \<open>isSubmitting\<close> holds exactly while one is. While it holds, both buttons are rendered
  disabled, so neither \<open>handlePredict\<close> nor \<open>handleReset\<close> can start; the pending timer
  can fire, and that clears \<open>isSubmitting\<close> and leaves no timer pending.
\<close>

theorem single_prediction_in_flight:
  assumes "run toStr mounted es = Some s"
  shows "length (pending s) \<le> 1
    \<and> (isSubmitting s \<longleftrightarrow> pending s \<noteq> [])
    \<and> (isSubmitting s \<longrightarrow>
          predictDisabled s \<and> resetDisabled s
          \<and> step toStr s ClickPredict = None \<and> step toStr s ClickReset = None
          \<and> (\<forall>r. \<exists>t. step toStr s (PredictTimeout r) = Some t
                 \<and> \<not> isSubmitting t \<and> pending t = []))"
proof -
  note inv = reachable_in_flight [OF assms]
  have "\<exists>t. step toStr s (PredictTimeout r) = Some t \<and> \<not> isSubmitting t \<and> pending t = []"
    if "isSubmitting s" for r
  proof -
    from that inv obtain fv where "pending s = [fv]"
      by (cases "pending s") auto
    moreover from that reachable_submitting [OF assms] have "\<not> renderThrows s"
      by simp
    ultimately show ?thesis by (simp add: step_def predictTimeout_def Let_def)
  qed
  with inv show ?thesis
    by (simp add: step_def predictDisabled_def resetDisabled_def)
qed

theorem single_prediction_in_flight_witness:
  "run sampleToString mounted [ClickPredict] = Some (handlePredict mounted)
   \<and> isSubmitting (handlePredict mounted)
   \<and> length (pending (handlePredict mounted)) \<le> 1
   \<and> step sampleToString (handlePredict mounted) ClickPredict = None
   \<and> step sampleToString (handlePredict mounted) ClickReset = None"
proof -
  have r: "run sampleToString mounted [ClickPredict] = Some (handlePredict mounted)"
    by (simp add: step_def renderThrows_handlers predictDisabled_def mounted_simps)
  have i: "isSubmitting (handlePredict mounted)"
    by (simp add: handlePredict_def)
  from single_prediction_in_flight [OF r] r i show ?thesis by blast
qed

section \<open>Reset and slider changes\<close>

lemmas table_defs = featureDefaults_def featureDefaultsTable_def mockFeatureNames_def

lemma defaults_names:
  "defaults ''Rainfall (mm)'' = Some 50"
  "defaults ''Water Level (m)'' = Some 2"
  "defaults (''Temperature ('' @ [CHR 0xC2, CHR 0xB0] @ ''C)'') = Some 25"
  "defaults ''Humidity (%)'' = Some 60"
  "defaults ''Wind Speed (km/h)'' = Some 15"
  "defaults (''River Discharge (m'' @ [CHR 0xC2, CHR 0xB3] @ ''/s)'') = Some 100"
  "defaults ''Soil Moisture (%)'' = Some 40"
  "defaults ''Elevation (m)'' = Some 50"
  by (simp_all add: defaults_apply defaultOf_def table_defs)

text \<open>
  Claim C4. Whatever the state, after \<open>handleReset\<close> each of the eight feature names is
  mapped to the default that \<open>featureDefaults\<close> records for it: Rainfall 50, Water Level 2,
  Temperature 25, Humidity 60, Wind Speed 15, River Discharge 100, Soil Moisture 40,
  Elevation 50.
\<close>

theorem reset_restores_defaults:
  "featureValues (handleReset s) ''Rainfall (mm)'' = Some 50
   \<and> featureValues (handleReset s) ''Water Level (m)'' = Some 2
   \<and> featureValues (handleReset s) (''Temperature ('' @ [CHR 0xC2, CHR 0xB0] @ ''C)'') = Some 25
   \<and> featureValues (handleReset s) ''Humidity (%)'' = Some 60
   \<and> featureValues (handleReset s) ''Wind Speed (km/h)'' = Some 15
   \<and> featureValues (handleReset s) (''River Discharge (m'' @ [CHR 0xC2, CHR 0xB3] @ ''/s)'')
       = Some 100
   \<and> featureValues (handleReset s) ''Soil Moisture (%)'' = Some 40
   \<and> featureValues (handleReset s) ''Elevation (m)'' = Some 50
   \<and> map (\<lambda>n. featureValues (handleReset s) n) mockFeatureNames
       = map (\<lambda>n. map_option default_v (featureDefaults n)) mockFeatureNames"
proof -
  have "featureValues (handleReset s) = defaults"
    by (simp add: handleReset_def)
  then show ?thesis
    by (simp add: defaults_apply defaultOf_def table_defs)
qed

text \<open>
  Claim C9. \<open>handleSliderChange(n, v)\<close> sets \<open>featureValues[n]\<close> to \<open>v[0]\<close> and changes
  nothing else: every other feature keeps its value, and \<open>predictionResult\<close>,
  \<open>aiInsights\<close> and \<open>isSubmitting\<close> (and the rest of the state) are as before.
\<close>

theorem slider_change_frame:
  "featureValues (handleSliderChange n v s) n = first v
   \<and> (\<forall>m. m \<noteq> n \<longrightarrow> featureValues (handleSliderChange n v s) m = featureValues s m)
   \<and> predictionResult (handleSliderChange n v s) = predictionResult s
   \<and> aiInsights (handleSliderChange n v s) = aiInsights s
   \<and> isSubmitting (handleSliderChange n v s) = isSubmitting s
   \<and> isLoaded (handleSliderChange n v s) = isLoaded s
   \<and> pending (handleSliderChange n v s) = pending s
   \<and> loadTimer (handleSliderChange n v s) = loadTimer s
   \<and> toasts (handleSliderChange n v s) = toasts s"
  by (simp add: handleSliderChange_def)

theorem slider_change_frame_witness:
  "''Humidity (%)'' \<noteq> ''Rainfall (mm)''
   \<and> featureValues (handleSliderChange ''Rainfall (mm)'' [120] mounted) ''Rainfall (mm)''
       = Some 120
   \<and> featureValues (handleSliderChange ''Rainfall (mm)'' [120] mounted) ''Humidity (%)''
       = Some 60"
proof -
  have d: "''Humidity (%)'' \<noteq> ''Rainfall (mm)''"
    by simp
  note f = slider_change_frame [of "''Rainfall (mm)''" "[120]" mounted]
  from f have a:
    "featureValues (handleSliderChange ''Rainfall (mm)'' [120] mounted) ''Rainfall (mm)''
       = first [120]"
    by (rule conjunct1)
  note b = f [THEN conjunct2, THEN conjunct1, THEN spec, THEN mp, OF d]
  have c: "featureValues mounted ''Humidity (%)'' = Some 60"
    by (simp add: mounted_simps defaults_apply defaultOf_def table_defs)
  from a b c d show ?thesis
    by (simp only: first.simps) simp
qed

text \<open>Without a click on the predict button no timer is started and no verdict is
  stored.\<close>

lemma deliver_no_prediction:
  assumes "deliver toStr a e = Some b" and "e \<noteq> ClickPredict"
    and "pending a = [] \<and> predictionResult a = None"
  shows "pending b = [] \<and> predictionResult b = None"
  using assms
  by (cases e) (auto simp: handleSliderChange_def handleReset_def split: if_splits)

lemma run_no_prediction:
  assumes "run toStr a es = Some b" and "ClickPredict \<notin> set es"
    and "pending a = [] \<and> predictionResult a = None"
  shows "pending b = [] \<and> predictionResult b = None"
  using assms
proof (induction es arbitrary: a)
  case Nil
  then show ?case by simp
next
  case (Cons e es)
  from Cons.prems(1) obtain c where c: "step toStr a e = Some c" and r: "run toStr c es = Some b"
    by (auto split: option.splits)
  from c have d: "deliver toStr a e = Some c"
    by (simp add: step_Some)
  from Cons.prems(2) have ne: "e \<noteq> ClickPredict" and rest: "ClickPredict \<notin> set es"
    by auto
  from deliver_no_prediction [OF d ne Cons.prems(3)] Cons.IH [OF r rest]
  show ?case by blast
qed

text \<open>
  Claim C8. Whatever the state, \<open>handleReset\<close> leaves \<open>predictionResult\<close> and \<open>aiInsights\<close>
  both \<open>null\<close>, and the results tab of the state it leaves renders without an error and
  is the placeholder. When the reset button is clicked in a reachable state, the
  placeholder stays through every later sequence of events that has no click on the
  predict button.
\<close>

theorem reset_clears_results:
  "predictionResult (handleReset s0) = None
   \<and> aiInsights (handleReset s0) = None
   \<and> resultsTab (handleReset s0) = Inr NoPredictionResultsYet
   \<and> (run toStr mounted es = Some s \<and> step toStr s ClickReset = Some s'
        \<and> run toStr s' es' = Some s'' \<and> ClickPredict \<notin> set es'
        \<longrightarrow> s' = handleReset s \<and> predictionResult s'' = None \<and> aiInsights s' = None
            \<and> resultsTab s'' = Inr NoPredictionResultsYet)"
proof -
  have later: "s' = handleReset s \<and> predictionResult s'' = None \<and> aiInsights s' = None
      \<and> resultsTab s'' = Inr NoPredictionResultsYet"
    if r: "run toStr mounted es = Some s" and c: "step toStr s ClickReset = Some s'"
      and l: "run toStr s' es' = Some s''" and n: "ClickPredict \<notin> set es'"
  proof -
    from c have en: "\<not> isSubmitting s" and eq: "s' = handleReset s"
      by (auto simp: step_Some resetDisabled_def split: if_splits)
    from reachable_in_flight [OF r] en have "pending s = []"
      by simp
    with eq have "pending s' = [] \<and> predictionResult s' = None"
      by (simp add: handleReset_simps)
    from run_no_prediction [OF l n this] have "predictionResult s'' = None"
      by simp
    with eq show ?thesis by (simp add: resultsTab_def handleReset_simps)
  qed
  have "resultsTab (handleReset s0) = Inr NoPredictionResultsYet"
    by (simp add: resultsTab_def handleReset_simps)
  with later show ?thesis
    by (simp add: handleReset_simps)
qed

theorem reset_clears_results_witness:
  "run sampleToString mounted [SliderChange ''Rainfall (mm)'' [120]]
     = Some (handleSliderChange ''Rainfall (mm)'' [120] mounted)
   \<and> step sampleToString (handleSliderChange ''Rainfall (mm)'' [120] mounted) ClickReset
       = Some (handleReset (handleSliderChange ''Rainfall (mm)'' [120] mounted))
   \<and> run sampleToString (handleReset (handleSliderChange ''Rainfall (mm)'' [120] mounted))
         [SliderChange ''Elevation (m)'' [10]]
       = Some (handleSliderChange ''Elevation (m)'' [10]
                (handleReset (handleSliderChange ''Rainfall (mm)'' [120] mounted)))
   \<and> ClickPredict \<notin> set [SliderChange ''Elevation (m)'' [10]]
   \<and> resultsTab (handleSliderChange ''Elevation (m)'' [10]
                    (handleReset (handleSliderChange ''Rainfall (mm)'' [120] mounted)))
       = Inr NoPredictionResultsYet"
proof -
  let ?s = "handleSliderChange ''Rainfall (mm)'' [120] mounted"
  let ?u = "handleSliderChange ''Elevation (m)'' [10] (handleReset ?s)"
  have a: "run sampleToString mounted [SliderChange ''Rainfall (mm)'' [120]] = Some ?s"
    by (simp add: step_def renderThrows_handlers mockFeatureNames_def)
  have b: "step sampleToString ?s ClickReset = Some (handleReset ?s)"
    by (simp add: step_def renderThrows_handlers resetDisabled_def handleSliderChange_simps
        mounted_simps)
  have c: "run sampleToString (handleReset ?s) [SliderChange ''Elevation (m)'' [10]] = Some ?u"
    by (simp add: step_def renderThrows_handlers mockFeatureNames_def)
  have d: "ClickPredict \<notin> set [SliderChange ''Elevation (m)'' [10]]"
    by simp
  from reset_clears_results
    [of mounted sampleToString "[SliderChange ''Rainfall (mm)'' [120]]" ?s "handleReset ?s"
        "[SliderChange ''Elevation (m)'' [10]]" ?u] a b c d
  have "resultsTab ?u = Inr NoPredictionResultsYet"
    by blast
  with a b c d show ?thesis by (intro conjI)
qed

section \<open>Slider bounds\<close>

lemma defaults_inRange: "storedInRange defaults"
  by (simp add: storedInRange_def inRange_def defaults_apply defaultOf_def table_defs)

lemma storedInRange_update:
  assumes "storedInRange fv" and "inRange n x"
  shows "storedInRange (fv(n \<mapsto> x))"
  using assms by (auto simp: storedInRange_def list_all_iff)

lemma deliver_inRange:
  assumes "deliver toStr a e = Some b" and "deliversInRange e"
    and "storedInRange (featureValues a)"
  shows "storedInRange (featureValues b)"
proof (cases e)
  case (SliderChange n v)
  with assms(2) obtain x where x: "first v = Some x" "inRange n x"
    by (auto split: option.splits)
  from SliderChange assms(1) have "featureValues b = (featureValues a)(n \<mapsto> x)"
    by (auto simp: handleSliderChange_def x split: if_splits)
  with assms(3) x(2) show ?thesis
    by (simp add: storedInRange_update)
next
  case ClickPredict
  with assms show ?thesis by (auto simp: handlePredict_def split: if_splits)
next
  case ClickReset
  with assms show ?thesis by (auto simp: handleReset_simps defaults_inRange split: if_splits)
next
  case (PredictTimeout r)
  with assms show ?thesis
    by (cases "pending a") (auto simp: predictTimeout_def Let_def)
next
  case LoadTimeout
  with assms show ?thesis by (auto split: if_splits)
qed

lemma run_inRange:
  assumes "run toStr a es = Some b" and "list_all deliversInRange es"
    and "storedInRange (featureValues a)"
  shows "storedInRange (featureValues b)"
  using assms
proof (induction es arbitrary: a)
  case Nil
  then show ?case by simp
next
  case (Cons e es)
  from Cons.prems(1) obtain c where c: "step toStr a e = Some c" and r: "run toStr c es = Some b"
    by (auto split: option.splits)
  from Cons.prems(2) have e: "deliversInRange e" and es: "list_all deliversInRange es"
    by simp_all
  from c have "deliver toStr a e = Some c"
    by (simp add: step_Some)
  from Cons.IH [OF r es deliver_inRange [OF this e Cons.prems(3)]] show ?case .
qed

text \<open>
  Claim C6. Start from the state the mount effect leaves (every feature at its default)
  and let any sequence of events happen in which every slider change delivers a value
  inside the configured range of its feature. Then, for every feature name, the stored
  value is a number between \<open>featureDefaults[name].min\<close> and \<open>featureDefaults[name].max\<close>
  inclusive, and it is the value the slider shows, between the \<open>min\<close> and \<open>max\<close> the
  slider is given.
\<close>

theorem slider_values_in_range:
  assumes "run toStr mounted es = Some s" and "list_all deliversInRange es"
    and "n \<in> set mockFeatureNames"
  shows "\<exists>c v. featureDefaults n = Some c \<and> featureValues s n = Some v
           \<and> min_v c \<le> v \<and> v \<le> max_v c
           \<and> sliderValue s n = v \<and> sliderMin n = min_v c \<and> sliderMax n = max_v c"
proof -
  from run_inRange [OF assms(1,2)] have "storedInRange (featureValues s)"
    by (simp add: mounted_simps defaults_inRange)
  with assms(3) obtain v where v: "featureValues s n = Some v" "inRange n v"
    by (auto simp: storedInRange_def list_all_iff split: option.splits)
  then obtain c where c: "featureDefaults n = Some c" "min_v c \<le> v" "v \<le> max_v c"
    by (auto simp: inRange_def split: option.splits)
  have "sliderValue s n = v"
    by (simp add: sliderValue_def v)
  with v c show ?thesis
    by (simp add: sliderMin_def sliderMax_def)
qed

theorem slider_values_in_range_witness:
  "run sampleToString mounted sampleEvents = Some sampleState
   \<and> list_all deliversInRange sampleEvents
   \<and> ''Rainfall (mm)'' \<in> set mockFeatureNames
   \<and> featureValues sampleState ''Rainfall (mm)'' = Some 120
   \<and> sliderMin ''Rainfall (mm)'' = 0 \<and> sliderMax ''Rainfall (mm)'' = 300
   \<and> sliderValue sampleState ''Rainfall (mm)'' = 120"
proof -
  have a: "list_all deliversInRange sampleEvents"
    by (simp add: sampleEvents_def inRange_def featureDefaults_def featureDefaultsTable_def)
  have b: "''Rainfall (mm)'' \<in> set mockFeatureNames"
    by (simp add: mockFeatureNames_def)
  have c: "featureValues sampleState ''Rainfall (mm)'' = Some 120"
    by (simp add: sampleState_def)
  have d: "featureDefaults ''Rainfall (mm)''
      = Some \<lparr>default_v = 50, min_v = 0, max_v = 300, step_v = 1\<rparr>"
    by (simp add: featureDefaults_def featureDefaultsTable_def)
  from slider_values_in_range [OF run_sample a b] c d
  have "sliderValue sampleState ''Rainfall (mm)'' = 120
    \<and> sliderMin ''Rainfall (mm)'' = 0 \<and> sliderMax ''Rainfall (mm)'' = 300"
    by auto
  with run_sample a b c show ?thesis by simp
qed

section \<open>The not-found page logs the attempted path\<close>

text \<open>
  Claim C7. Every render of \<open>NotFound\<close> gives the 404 view. When it is mounted, and
  whenever it is rendered at a pathname other than that of its last commit, its effect
  appends one \<open>console.error\<close> entry whose arguments are the fixed message and the
  attempted \<open>location.pathname\<close>; a render at an unchanged pathname logs nothing. This
  holds at every pathname, so at every one the router leaves unmatched.
\<close>

theorem notFound_logs_path:
  "fst (NotFound p w) = view404
   \<and> (effectDeps w \<noteq> Some p \<longrightarrow>
        console (snd (NotFound p w))
          = console w @ [ConsoleError [''404 Error: User attempted to access non-existent route:'', p]]
        \<and> effectDeps (snd (NotFound p w)) = Some p)
   \<and> (effectDeps w = Some p \<longrightarrow> snd (NotFound p w) = w)"
  by (simp add: NotFound_def logAttempt_def)

theorem notFound_logs_path_witness:
  "effectDeps \<lparr>console = [], effectDeps = None\<rparr> \<noteq> Some ''/nowhere''
   \<and> console (snd (NotFound ''/nowhere'' \<lparr>console = [], effectDeps = None\<rparr>))
       = [ConsoleError [''404 Error: User attempted to access non-existent route:'',
                        ''/nowhere'']]
   \<and> effectDeps (snd (NotFound ''/nowhere'' \<lparr>console = [], effectDeps = None\<rparr>))
       = Some ''/nowhere''
   \<and> snd (NotFound ''/nowhere'' (snd (NotFound ''/nowhere'' \<lparr>console = [], effectDeps = None\<rparr>)))
       = snd (NotFound ''/nowhere'' \<lparr>console = [], effectDeps = None\<rparr>)"
proof -
  note mount = notFound_logs_path [of "''/nowhere''" "\<lparr>console = [], effectDeps = None\<rparr>"]
  note again = notFound_logs_path
    [of "''/nowhere''" "snd (NotFound ''/nowhere'' \<lparr>console = [], effectDeps = None\<rparr>)"]
  from mount have m: "console (snd (NotFound ''/nowhere'' \<lparr>console = [], effectDeps = None\<rparr>))
       = [ConsoleError [''404 Error: User attempted to access non-existent route:'',
                        ''/nowhere'']]
     \<and> effectDeps (snd (NotFound ''/nowhere'' \<lparr>console = [], effectDeps = None\<rparr>))
       = Some ''/nowhere''"
    by simp
  with again have "snd (NotFound ''/nowhere'' (snd (NotFound ''/nowhere'' \<lparr>console = [], effectDeps = None\<rparr>)))
       = snd (NotFound ''/nowhere'' \<lparr>console = [], effectDeps = None\<rparr>)"
    by blast
  with m show ?thesis by simp
qed

section \<open>The insight text\<close>

lemma interpolate_ascii:
  assumes "\<forall>x. ascii (toStr x)"
  shows "ascii (interpolate toStr v)"
proof (cases v)
  case None
  then show ?thesis by (simp add: interpolate_def ascii_def)
next
  case (Some x)
  with assms show ?thesis by (simp add: interpolate_def)
qed

lemma ascii_notin:
  assumes "ascii s" and "\<not> of_char c < (128::nat)"
  shows "c \<notin> set s"
  using assms by (auto simp: ascii_def list_all_iff)

lemma includes_high: "includesStr (insights toStr True fv) highMarker"
  unfolding includesStr_def insights_def sublist_def by (simp only: if_True) blast

lemma includes_low: "includesStr (insights toStr False fv) lowMarker"
  unfolding includesStr_def insights_def sublist_def by (simp only: if_False) blast

lemma low_without_9A:
  assumes "\<forall>x. ascii (toStr x)"
  shows "CHR 0x9A \<notin> set (insights toStr False fv)"
proof -
  have i: "CHR 0x9A \<notin> set (interpolate toStr v)" for v
    by (rule ascii_notin [OF interpolate_ascii [OF assms]]) simp
  show ?thesis
    by (simp add: insights_def heading_def magnifier_def lowMarker_def checkMark_def
        factors_def lowFactors_def bullet_def lowRecommendations_def i)
qed

lemma high_without_9C:
  assumes "\<forall>x. ascii (toStr x)"
  shows "CHR 0x9C \<notin> set (insights toStr True fv)"
proof -
  have i: "CHR 0x9C \<notin> set (interpolate toStr v)" for v
    by (rule ascii_notin [OF interpolate_ascii [OF assms]]) simp
  show ?thesis
    by (simp add: insights_def heading_def magnifier_def highMarker_def warningSign_def
        factors_def highFactors_def bullet_def highRecommendations_def i)
qed

lemma includes_set: "includesStr s needle \<Longrightarrow> set needle \<subseteq> set s"
  by (auto simp: includesStr_def sublist_def)

lemma low_excludes_high:
  assumes "\<forall>x. ascii (toStr x)"
  shows "\<not> includesStr (insights toStr False fv) highMarker"
proof
  assume "includesStr (insights toStr False fv) highMarker"
  then have "set highMarker \<subseteq> set (insights toStr False fv)"
    by (rule includes_set)
  moreover have "CHR 0x9A \<in> set highMarker"
    by (simp add: highMarker_def warningSign_def)
  ultimately show False
    using low_without_9A [OF assms] by blast
qed

lemma high_excludes_low:
  assumes "\<forall>x. ascii (toStr x)"
  shows "\<not> includesStr (insights toStr True fv) lowMarker"
proof
  assume "includesStr (insights toStr True fv) lowMarker"
  then have "set lowMarker \<subseteq> set (insights toStr True fv)"
    by (rule includes_set)
  moreover have "CHR 0x9C \<in> set lowMarker"
    by (simp add: lowMarker_def checkMark_def)
  ultimately show False
    using high_without_9C [OF assms] by blast
qed

lemma insights_high: "insights toStr True fv = highTemplate toStr fv"
  by (simp add: insights_def highTemplate_def highMarker_def factors_def highFactors_def
      highRecommendations_def)

lemma insights_low: "insights toStr False fv = lowTemplate toStr fv"
  by (simp add: insights_def lowTemplate_def lowMarker_def factors_def lowFactors_def
      lowRecommendations_def)

lemma templates_differ:
  assumes "\<forall>x. ascii (toStr x)"
  shows "highTemplate toStr fv \<noteq> lowTemplate toStr fv'"
proof
  assume "highTemplate toStr fv = lowTemplate toStr fv'"
  then have "insights toStr True fv = insights toStr False fv'"
    by (simp add: insights_high insights_low)
  with includes_high [of toStr fv] low_excludes_high [OF assms, of fv']
  show False by simp
qed

lemma deliver_outputs:
  assumes "deliver toStr a e = Some b"
  shows "(predictionResult b = predictionResult a \<and> aiInsights b = aiInsights a)
    \<or> (predictionResult b = None \<and> aiInsights b = None)
    \<or> (\<exists>h fv. predictionResult b = Some (result h) \<and> aiInsights b = Some (insights toStr h fv))"
proof (cases e)
  case (SliderChange n v)
  with assms have "b = handleSliderChange n v a"
    by (simp split: if_splits)
  then show ?thesis by (simp add: handleSliderChange_def)
next
  case ClickPredict
  with assms have "b = handlePredict a"
    by (simp split: if_splits)
  then show ?thesis by (simp add: handlePredict_def)
next
  case ClickReset
  with assms have "b = handleReset a"
    by (simp split: if_splits)
  then show ?thesis by (simp add: handleReset_simps)
next
  case (PredictTimeout r)
  with assms obtain fv rest where "b = predictTimeout toStr r fv (a\<lparr>pending := rest\<rparr>)"
    by (auto split: list.splits)
  then have "predictionResult b = Some (result (r > 1 / 2))
      \<and> aiInsights b = Some (insights toStr (r > 1 / 2) fv)"
    by (simp add: predictTimeout_def Let_def)
  then show ?thesis by blast
next
  case LoadTimeout
  with assms have "b = a\<lparr>isLoaded := True, loadTimer := False\<rparr>"
    by (simp split: if_splits)
  then show ?thesis by simp
qed

lemma deliver_agree:
  assumes "deliver toStr a e = Some b"
    and "(predictionResult a = None \<and> aiInsights a = None)
         \<or> (\<exists>h fv. predictionResult a = Some (result h) \<and> aiInsights a = Some (insights toStr h fv))"
  shows "(predictionResult b = None \<and> aiInsights b = None)
         \<or> (\<exists>h fv. predictionResult b = Some (result h) \<and> aiInsights b = Some (insights toStr h fv))"
  using deliver_outputs [OF assms(1)] assms(2) by metis

lemma reachable_agree:
  assumes "run toStr mounted es = Some s"
  shows "(predictionResult s = None \<and> aiInsights s = None)
         \<or> (\<exists>h fv. predictionResult s = Some (result h) \<and> aiInsights s = Some (insights toStr h fv))"
  using assms
proof (rule run_invariant)
  show "(predictionResult mounted = None \<and> aiInsights mounted = None)
         \<or> (\<exists>h fv. predictionResult mounted = Some (result h)
               \<and> aiInsights mounted = Some (insights toStr h fv))"
    by (simp add: mounted_simps)
next
  fix a e b
  assume "(predictionResult a = None \<and> aiInsights a = None)
         \<or> (\<exists>h fv. predictionResult a = Some (result h) \<and> aiInsights a = Some (insights toStr h fv))"
    and "\<not> renderThrows a" and "deliver toStr a e = Some b"
  then show "(predictionResult b = None \<and> aiInsights b = None)
         \<or> (\<exists>h fv. predictionResult b = Some (result h) \<and> aiInsights b = Some (insights toStr h fv))"
    using deliver_agree by blast
qed

text \<open>
  Claim C5. Let number formatting produce ASCII text, as \<open>Number.prototype.toString\<close>
  does. Then in every reachable state the stored insight text is the high-risk text of
  the template, for some feature values, exactly when the stored verdict is the high-risk
  string, and it is the low-risk text exactly when the verdict is the low-risk string.
  The high-risk text includes the high-risk marker line and the low-risk text the
  low-risk one, and the stored text includes the high-risk marker exactly when the
  verdict is high, the low-risk marker exactly when it is low. The text is \<open>null\<close>
  exactly when the verdict is \<open>null\<close>.
\<close>

theorem insights_agree_with_verdict:
  assumes "\<forall>x. ascii (toStr x)" and "run toStr mounted es = Some s"
  shows "((\<exists>fv. aiInsights s = Some (highTemplate toStr fv))
            \<longleftrightarrow> predictionResult s = Some highVerdict)
    \<and> ((\<exists>fv. aiInsights s = Some (lowTemplate toStr fv))
            \<longleftrightarrow> predictionResult s = Some lowVerdict)
    \<and> includesStr (highTemplate toStr fv0) highMarker
    \<and> includesStr (lowTemplate toStr fv0) lowMarker
    \<and> ((\<exists>i. aiInsights s = Some i \<and> includesStr i highMarker)
            \<longleftrightarrow> predictionResult s = Some highVerdict)
    \<and> ((\<exists>i. aiInsights s = Some i \<and> includesStr i lowMarker)
            \<longleftrightarrow> predictionResult s = Some lowVerdict)
    \<and> (aiInsights s = None \<longleftrightarrow> predictionResult s = None)"
proof -
  have marks: "includesStr (highTemplate toStr fv0) highMarker"
      "includesStr (lowTemplate toStr fv0) lowMarker"
    using includes_high [of toStr fv0] includes_low [of toStr fv0]
    by (simp_all add: insights_high insights_low)
  from reachable_agree [OF assms(2)]
  consider (none) "predictionResult s = None" "aiInsights s = None"
    | (high) fv where "predictionResult s = Some highVerdict"
        "aiInsights s = Some (insights toStr True fv)"
    | (low) fv where "predictionResult s = Some lowVerdict"
        "aiInsights s = Some (insights toStr False fv)"
    by (auto simp: result_def split: if_splits)
  then have "((\<exists>fv. aiInsights s = Some (highTemplate toStr fv))
            \<longleftrightarrow> predictionResult s = Some highVerdict)
    \<and> ((\<exists>fv. aiInsights s = Some (lowTemplate toStr fv))
            \<longleftrightarrow> predictionResult s = Some lowVerdict)
    \<and> ((\<exists>i. aiInsights s = Some i \<and> includesStr i highMarker)
            \<longleftrightarrow> predictionResult s = Some highVerdict)
    \<and> ((\<exists>i. aiInsights s = Some i \<and> includesStr i lowMarker)
            \<longleftrightarrow> predictionResult s = Some lowVerdict)
    \<and> (aiInsights s = None \<longleftrightarrow> predictionResult s = None)"
  proof cases
    case none
    then show ?thesis by simp
  next
    case high
    have "\<exists>fv'. insights toStr True fv = highTemplate toStr fv'"
      using insights_high by blast
    moreover have "insights toStr True fv \<noteq> lowTemplate toStr fv'" for fv'
      using templates_differ [OF assms(1), of fv fv'] by (simp add: insights_high)
    ultimately show ?thesis
      using high verdicts_differ includes_high [of toStr fv]
        high_excludes_low [OF assms(1), of fv]
      by simp
  next
    case low
    have "\<exists>fv'. insights toStr False fv = lowTemplate toStr fv'"
      using insights_low by blast
    moreover have "insights toStr False fv \<noteq> highTemplate toStr fv'" for fv'
      using templates_differ [OF assms(1), of fv' fv] by (simp add: insights_low)
    ultimately show ?thesis
      using low verdicts_differ includes_low [of toStr fv]
        low_excludes_high [OF assms(1), of fv]
      by simp
  qed
  with marks show ?thesis by simp
qed

theorem insights_agree_with_verdict_witness:
  "(\<forall>x. ascii (sampleToString x))
   \<and> run sampleToString mounted sampleEvents = Some sampleState
   \<and> predictionResult sampleState = Some highVerdict
   \<and> (\<exists>fv. aiInsights sampleState = Some (highTemplate sampleToString fv))
   \<and> \<not> (\<exists>fv. aiInsights sampleState = Some (lowTemplate sampleToString fv))
   \<and> (\<exists>i. aiInsights sampleState = Some i \<and> includesStr i highMarker)
   \<and> \<not> (\<exists>i. aiInsights sampleState = Some i \<and> includesStr i lowMarker)"
proof -
  have a: "\<forall>x. ascii (sampleToString x)"
    by (simp add: sampleToString_def ascii_def)
  have p: "predictionResult sampleState = Some highVerdict"
    by (simp add: sampleState_def)
  from insights_agree_with_verdict [OF a run_sample] p verdicts_differ a run_sample
  show ?thesis by simp
qed

lemma substitutions_high:
  "substitutions (factors True) = [''Rainfall (mm)'', ''Water Level (m)'', ''Humidity (%)'']"
  by (simp add: factors_def highFactors_def)

lemma substitutions_low:
  "substitutions (factors False) = [''Rainfall (mm)'', ''Water Level (m)'']"
  by (simp add: factors_def lowFactors_def)

lemma render_cong:
  assumes "\<forall>n\<in>set (substitutions ps). fv n = fv' n"
  shows "render toStr fv ps = render toStr fv' ps"
  using assms
proof (induction ps)
  case Nil
  then show ?case by simp
next
  case (Cons p ps)
  then show ?case by (cases p) simp_all
qed

lemma insights_cong:
  assumes "\<forall>n\<in>set (substitutions (factors h)). fv n = fv' n"
  shows "insights toStr h fv = insights toStr h fv'"
  by (simp add: insights_def render_cong [OF assms])

lemma render_differs:
  assumes "n \<in> set (substitutions ps)" and "\<forall>m. m \<noteq> n \<longrightarrow> fv m = fv' m"
    and "interpolate toStr (fv n) \<noteq> interpolate toStr (fv' n)"
    and "distinct (substitutions ps)"
  shows "render toStr fv ps \<noteq> render toStr fv' ps"
  using assms(1,4)
proof (induction ps)
  case Nil
  then show ?case by simp
next
  case (Cons p ps)
  show ?case
  proof (cases p)
    case (Lit t)
    with Cons show ?thesis by simp
  next
    case (Subst k)
    show ?thesis
    proof (cases "k = n")
      case True
      with Cons.prems Subst have "n \<notin> set (substitutions ps)"
        by simp
      with assms(2) have "\<forall>m\<in>set (substitutions ps). fv m = fv' m"
        by metis
      then have "render toStr fv ps = render toStr fv' ps"
        by (rule render_cong)
      with True Subst assms(3) show ?thesis by simp
    next
      case False
      with assms(2) have "fv k = fv' k"
        by simp
      moreover from False Subst Cons.prems have "n \<in> set (substitutions ps)"
          and "distinct (substitutions ps)"
        by simp_all
      then have "render toStr fv ps \<noteq> render toStr fv' ps"
        by (rule Cons.IH)
      ultimately show ?thesis using Subst by simp
    qed
  qed
qed

lemma insights_differs:
  assumes "n \<in> set (substitutions (factors h))" and "\<forall>m. m \<noteq> n \<longrightarrow> fv m = fv' m"
    and "interpolate toStr (fv n) \<noteq> interpolate toStr (fv' n)"
  shows "insights toStr h fv \<noteq> insights toStr h fv'"
proof -
  have "distinct (substitutions (factors h))"
    by (cases h) (simp_all add: substitutions_high substitutions_low)
  from render_differs [OF assms this] show ?thesis
    by (simp add: insights_def)
qed

text \<open>While a prediction is pending and its timer has not fired, the timer keeps the
  feature values it captured.\<close>

lemma deliver_keeps_pending:
  assumes "deliver toStr a e = Some b" and "\<not> firesPrediction e" and "isSubmitting a"
  shows "pending b = pending a \<and> isSubmitting b"
  using assms
  by (cases e)
    (auto simp: handleSliderChange_simps predictDisabled_def resetDisabled_def split: if_splits)

lemma run_keeps_pending:
  assumes "run toStr a es = Some b" and "list_all (\<lambda>e. \<not> firesPrediction e) es"
    and "isSubmitting a"
  shows "pending b = pending a \<and> isSubmitting b"
  using assms
proof (induction es arbitrary: a)
  case Nil
  then show ?case by simp
next
  case (Cons e es)
  from Cons.prems(1) obtain c where c: "step toStr a e = Some c" and r: "run toStr c es = Some b"
    by (auto split: option.splits)
  from c have d: "deliver toStr a e = Some c"
    by (simp add: step_Some)
  from Cons.prems(2) have e: "\<not> firesPrediction e"
    and es: "list_all (\<lambda>e. \<not> firesPrediction e) es"
    by simp_all
  from deliver_keeps_pending [OF d e Cons.prems(3)]
  have k: "pending c = pending a" "isSubmitting c"
    by simp_all
  from Cons.IH [OF r es k(2)] k(1) show ?case by simp
qed

lemma click_then_timeout:
  assumes r: "run toStr mounted es = Some s" and c: "step toStr s ClickPredict = Some s1"
    and l: "run toStr s1 es' = Some s2" and n: "list_all (\<lambda>e. \<not> firesPrediction e) es'"
    and f: "step toStr s2 (PredictTimeout r) = Some t"
  shows "aiInsights t = Some (insights toStr (r > 1 / 2) (featureValues s))"
proof -
  from c have en: "\<not> isSubmitting s" and eq: "s1 = handlePredict s"
    by (auto simp: step_Some predictDisabled_def split: if_splits)
  from reachable_in_flight [OF r] en have "pending s = []"
    by simp
  with eq have p1: "pending s1 = [featureValues s]" and i1: "isSubmitting s1"
    by (simp_all add: handlePredict_simps)
  from run_keeps_pending [OF l n i1] p1 have "pending s2 = [featureValues s]"
    by simp
  moreover from f have "deliver toStr s2 (PredictTimeout r) = Some t"
    by (simp add: step_Some)
  ultimately have "t = predictTimeout toStr r (featureValues s) (s2\<lparr>pending := []\<rparr>)"
    by simp
  then show ?thesis by (simp add: predictTimeout_def Let_def)
qed

text \<open>
  Claim C3, as the specification states it: in both branches the insight text
  interpolates exactly three feature values. The low-risk template has two substitutions
  only. Two runs of the predict operation with a draw in the low-risk branch, one at the
  default humidity of 60 and one with the humidity slider moved to 50 first, store the
  same insight text.
\<close>

theorem three_values_counterexample:
  "length (substitutions (factors False)) \<noteq> 3
   \<and> substitutions (factors False) = [''Rainfall (mm)'', ''Water Level (m)'']
   \<and> sampleToString 50 \<noteq> sampleToString 60
   \<and> map_option featureValues
         (run sampleToString mounted [SliderChange ''Humidity (%)'' [50]])
       = Some (defaults(''Humidity (%)'' \<mapsto> 50))
   \<and> map_option aiInsights
         (run sampleToString mounted [ClickPredict, PredictTimeout (3 / 10)])
       = Some (Some (lowTemplate sampleToString defaults))
   \<and> map_option aiInsights
         (run sampleToString mounted
            [SliderChange ''Humidity (%)'' [50], ClickPredict, PredictTimeout (3 / 10)])
       = Some (Some (lowTemplate sampleToString (defaults(''Humidity (%)'' \<mapsto> 50))))
   \<and> lowTemplate sampleToString (defaults(''Humidity (%)'' \<mapsto> 50))
       = lowTemplate sampleToString defaults"
proof -
  have a: "map_option featureValues
         (run sampleToString mounted [SliderChange ''Humidity (%)'' [50]])
       = Some (defaults(''Humidity (%)'' \<mapsto> 50))"
    by (simp add: step_def renderThrows_handlers mockFeatureNames_def
        handleSliderChange_simps mounted_simps)
  have b: "map_option aiInsights
         (run sampleToString mounted [ClickPredict, PredictTimeout (3 / 10)])
       = Some (Some (lowTemplate sampleToString defaults))"
    by (simp add: step_def renderThrows_handlers predictDisabled_def mounted_simps
        handlePredict_simps predictTimeout_def insights_low)
  have c: "map_option aiInsights
         (run sampleToString mounted
            [SliderChange ''Humidity (%)'' [50], ClickPredict, PredictTimeout (3 / 10)])
       = Some (Some (lowTemplate sampleToString (defaults(''Humidity (%)'' \<mapsto> 50))))"
    by (simp add: step_def renderThrows_handlers predictDisabled_def mounted_simps
        handlePredict_simps handleSliderChange_simps mockFeatureNames_def
        predictTimeout_def insights_low)
  have d: "lowTemplate sampleToString (defaults(''Humidity (%)'' \<mapsto> 50))
       = lowTemplate sampleToString defaults"
    by (simp add: lowTemplate_def)
  from a b c d show ?thesis
    by (simp add: substitutions_low sampleToString_def)
qed

text \<open>
  Claim C3, amended. For every run of the predict operation the stored insight text is
  the text of the drawn branch, filled with values of the \<open>featureValues\<close> state in which
  \<open>handlePredict\<close> ran: exactly three values (rainfall, water level, humidity) in the
  high-risk branch and exactly two (rainfall, water level) in the low-risk branch. The
  text is the same for two feature maps that agree on the interpolated names, and
  differs when exactly one interpolated value is formatted differently.
\<close>

theorem insights_interpolation:
  "substitutions (factors True) = [''Rainfall (mm)'', ''Water Level (m)'', ''Humidity (%)'']
   \<and> substitutions (factors False) = [''Rainfall (mm)'', ''Water Level (m)'']
   \<and> insights toStr True fv = highTemplate toStr fv
   \<and> insights toStr False fv = lowTemplate toStr fv
   \<and> (run toStr mounted es = Some s \<and> step toStr s ClickPredict = Some s1
        \<and> run toStr s1 es' = Some s2 \<and> list_all (\<lambda>e. \<not> firesPrediction e) es'
        \<and> step toStr s2 (PredictTimeout r) = Some t \<longrightarrow>
        aiInsights t = Some (if r > 1 / 2 then highTemplate toStr (featureValues s)
                             else lowTemplate toStr (featureValues s)))
   \<and> ((\<forall>n\<in>set (substitutions (factors h)). fv n = fv' n) \<longrightarrow>
        insights toStr h fv = insights toStr h fv')
   \<and> (n \<in> set (substitutions (factors h)) \<and> (\<forall>m. m \<noteq> n \<longrightarrow> fv m = fv' m)
        \<and> interpolate toStr (fv n) \<noteq> interpolate toStr (fv' n) \<longrightarrow>
        insights toStr h fv \<noteq> insights toStr h fv')"
proof -
  have "aiInsights t = Some (if r > 1 / 2 then highTemplate toStr (featureValues s)
                             else lowTemplate toStr (featureValues s))"
    if "run toStr mounted es = Some s" and "step toStr s ClickPredict = Some s1"
      and "run toStr s1 es' = Some s2" and "list_all (\<lambda>e. \<not> firesPrediction e) es'"
      and "step toStr s2 (PredictTimeout r) = Some t"
    using click_then_timeout [OF that] by (simp add: insights_high insights_low)
  then show ?thesis
    using substitutions_high substitutions_low insights_high [of toStr fv]
      insights_low [of toStr fv] insights_cong [of h fv fv' toStr]
      insights_differs [of n h fv fv' toStr]
    by blast
qed

theorem insights_interpolation_witness:
  "run sampleToString mounted [SliderChange ''Rainfall (mm)'' [120]]
     = Some (handleSliderChange ''Rainfall (mm)'' [120] mounted)
   \<and> step sampleToString (handleSliderChange ''Rainfall (mm)'' [120] mounted) ClickPredict
       = Some (handlePredict (handleSliderChange ''Rainfall (mm)'' [120] mounted))
   \<and> run sampleToString (handlePredict (handleSliderChange ''Rainfall (mm)'' [120] mounted))
         [SliderChange ''Humidity (%)'' [75]]
       = Some (handleSliderChange ''Humidity (%)'' [75]
                (handlePredict (handleSliderChange ''Rainfall (mm)'' [120] mounted)))
   \<and> list_all (\<lambda>e. \<not> firesPrediction e) [SliderChange ''Humidity (%)'' [75]]
   \<and> map_option aiInsights
         (step sampleToString
            (handleSliderChange ''Humidity (%)'' [75]
              (handlePredict (handleSliderChange ''Rainfall (mm)'' [120] mounted)))
            (PredictTimeout (7 / 10)))
       = Some (Some (highTemplate sampleToString (defaults(''Rainfall (mm)'' \<mapsto> 120))))
   \<and> insights sampleToString False defaults
       = insights sampleToString False (defaults(''Humidity (%)'' \<mapsto> 50))
   \<and> insights sampleToString True defaults
       \<noteq> insights sampleToString True (defaults(''Humidity (%)'' \<mapsto> 50))"
proof -
  let ?s = "handleSliderChange ''Rainfall (mm)'' [120] mounted"
  let ?s1 = "handlePredict ?s"
  let ?s2 = "handleSliderChange ''Humidity (%)'' [75] ?s1"
  let ?t = "the (step sampleToString ?s2 (PredictTimeout (7 / 10)))"
  let ?fv = "defaults(''Humidity (%)'' \<mapsto> 50)"
  have r: "run sampleToString mounted [SliderChange ''Rainfall (mm)'' [120]] = Some ?s"
    by (simp add: step_def renderThrows_handlers mockFeatureNames_def)
  have c: "step sampleToString ?s ClickPredict = Some ?s1"
    by (simp add: step_def renderThrows_handlers predictDisabled_def handleSliderChange_simps
        mounted_simps)
  have l: "run sampleToString ?s1 [SliderChange ''Humidity (%)'' [75]] = Some ?s2"
    by (simp add: step_def renderThrows_handlers mockFeatureNames_def)
  have n: "list_all (\<lambda>e. \<not> firesPrediction e) [SliderChange ''Humidity (%)'' [75]]"
    by simp
  have f: "step sampleToString ?s2 (PredictTimeout (7 / 10)) = Some ?t"
    by (simp add: step_def renderThrows_handlers handleSliderChange_simps handlePredict_simps
        mounted_simps)
  have same: "\<forall>n\<in>set (substitutions (factors False)). defaults n = ?fv n"
    by (simp add: substitutions_low)
  have mem: "''Humidity (%)'' \<in> set (substitutions (factors True))"
    by (simp add: substitutions_high)
  have others: "\<forall>m. m \<noteq> ''Humidity (%)'' \<longrightarrow> defaults m = ?fv m"
    by simp
  have diff: "interpolate sampleToString (defaults ''Humidity (%)'')
      \<noteq> interpolate sampleToString (?fv ''Humidity (%)'')"
    by (simp add: interpolate_def sampleToString_def defaults_apply defaultOf_def table_defs)
  note low = insights_interpolation
    [of sampleToString defaults "[SliderChange ''Rainfall (mm)'' [120]]" ?s ?s1
        "[SliderChange ''Humidity (%)'' [75]]" ?s2 "7 / 10" ?t False ?fv "''Humidity (%)''"]
  note high = insights_interpolation
    [of sampleToString defaults "[SliderChange ''Rainfall (mm)'' [120]]" ?s ?s1
        "[SliderChange ''Humidity (%)'' [75]]" ?s2 "7 / 10" ?t True ?fv "''Humidity (%)''"]
  from low r c l n f
  have "aiInsights ?t = Some (if (7 / 10 :: real) > 1 / 2
          then highTemplate sampleToString (featureValues ?s)
          else lowTemplate sampleToString (featureValues ?s))"
    by blast
  then have "aiInsights ?t = Some (highTemplate sampleToString (defaults(''Rainfall (mm)'' \<mapsto> 120)))"
    by (simp add: handleSliderChange_simps mounted_simps)
  with f have a: "map_option aiInsights (step sampleToString ?s2 (PredictTimeout (7 / 10)))
       = Some (Some (highTemplate sampleToString (defaults(''Rainfall (mm)'' \<mapsto> 120))))"
    by (metis option.map(2))
  from low same have b: "insights sampleToString False defaults = insights sampleToString False ?fv"
    by blast
  from high mem others diff
  have d: "insights sampleToString True defaults \<noteq> insights sampleToString True ?fv"
    by blast
  from r c l n a b d show ?thesis by (intro conjI)
qed

end
